theory Spec2Isabelle
  imports Main
begin

section \<open>Data model\<close>

text \<open>
  The program is one Python class, \<open>GitCommitHelper\<close>, in \<open>src/auto-commit.py\<close>.
  A staged change is the tuple \<open>(file_path, diff, file_content)\<close> that
  \<open>get_staged_changes\<close> appends for every staged file.
\<close>

type_synonym change = "string \<times> string \<times> string"

text \<open>The Python exceptions that the program's statements can raise.\<close>

datatype exn =
    CalledProcessError
  | FileNotFoundError
  | IndexError
  | AttributeError
  | TypeError
  | EOFError
  | OSError
  | UnicodeDecodeError
  | ClientError

text \<open>
  What the process does to the outside, in the order it does it: \<open>print\<close>, a spawned
  subprocess with its argument vector, opening a file for reading or for writing, a write
  to an open file (path and text), the request to the text-generation service with its
  prompt, and the \<open>input\<close> call with its prompt.
\<close>

datatype event =
    Print string
  | Subprocess "string list"
  | OpenRead string
  | OpenWrite string
  | FileWrite string string
  | ApiRequest string
  | Input string

text \<open>
  A statement sequence either runs to its end with a value, leaves through
  \<open>sys.exit(n)\<close>, or raises an exception that nothing in the program catches.
\<close>

datatype 'a outcome = Return 'a | SysExit int | Raise exn

text \<open>
  A spawned program either ends with a return code and a standard output that decodes to
  text, or ends with a return code and an output whose bytes do not decode in the
  locale's encoding, or cannot be started at all because the executable is missing.
\<close>

datatype proc_result = Exited nat string | Undecodable nat | NotFound

text \<open>
  One block of the service's response: a text block has the attribute \<open>text\<close>, any
  other kind of block has not.
\<close>

datatype content_block = TextBlock string | OtherBlock

text \<open>
  \<open>get_commit_message_from_claude\<close> returns \<open>message.content\<close>, a list of
  blocks, when the request succeeds, and the fallback's \<open>str\<close> when it fails: the
  variable \<open>commit_message\<close> of \<open>run\<close> holds either.
\<close>

datatype commit_value = Str string | Content "content_block list"

text \<open>
  Everything the program reads from outside: the environment, whether the client's
  constructor raises for a given key, the result of each subprocess by argument vector, the
  result of reading each file, the service's answer to a prompt (\<open>Inl\<close> carries
  \<open>str(e)\<close> of the exception raised), whether a path can be opened for writing, and
  the line typed at the confirmation prompt (\<open>None\<close> at end of input).
\<close>

record world =
  getenv :: "string \<Rightarrow> string option"
  anthropic_ctor :: "string option \<Rightarrow> exn option"
  subprocess :: "string list \<Rightarrow> proc_result"
  read_file :: "string \<Rightarrow> exn + string"
  messages_create :: "string \<Rightarrow> string + content_block list"
  open_write :: "string \<Rightarrow> exn option"
  stdin_line :: "string option"

section \<open>Python primitives\<close>

definition getitem :: "'a list \<Rightarrow> nat \<Rightarrow> exn + 'a" where
  \<comment> \<open>\<open>xs[i]\<close> for a non-negative index: out of range raises.\<close>
  "getitem xs i = (if i < length xs then Inr (xs ! i) else Inl IndexError)"

definition digit_char :: "nat \<Rightarrow> char" where
  "digit_char d = ''0123456789'' ! d"

fun str_nat :: "nat \<Rightarrow> string" where
  \<comment> \<open>\<open>str(n)\<close> of a non-negative integer: its decimal digits.\<close>
  "str_nat n =
     (if n < 10 then [digit_char n]
      else str_nat (n div 10) @ [digit_char (n mod 10)])"

declare str_nat.simps [simp del]

definition digits_value :: "string \<Rightarrow> nat" where
  \<comment> \<open>The number that a string of decimal digits denotes, read left to right.\<close>
  "digits_value s = foldl (\<lambda>a c. 10 * a + (of_char c - 48)) 0 s"

fun split_nl :: "string \<Rightarrow> string list" where
  \<comment> \<open>\<open>s.split('\n')\<close>: the pieces between newlines, empty pieces included.\<close>
  "split_nl [] = [[]]"
| "split_nl (c # cs) =
     (if c = CHR 0x0A then [] # split_nl cs
      else (case split_nl cs of [] \<Rightarrow> [[c]] | piece # pieces \<Rightarrow> (c # piece) # pieces))"

definition lower_char :: "char \<Rightarrow> char" where
  \<comment> \<open>\<open>str.lower\<close> on one character of the ASCII range.\<close>
  "lower_char c =
     (case map_of (zip ''ABCDEFGHIJKLMNOPQRSTUVWXYZ'' ''abcdefghijklmnopqrstuvwxyz'') c of
        Some l \<Rightarrow> l
      | None \<Rightarrow> c)"

definition lower :: "string \<Rightarrow> string" where
  "lower s = map lower_char s"

definition checked :: "proc_result \<Rightarrow> exn + string" where
  \<comment> \<open>\<open>subprocess.check_output(..., universal_newlines=True)\<close>: a missing executable
      raises FileNotFoundError; the output is decoded while it is read, before the return
      code is looked at, so bytes that do not decode raise UnicodeDecodeError whatever the
      return code; then a non-zero return code raises CalledProcessError.\<close>
  "checked r =
     (case r of
        Exited rc out \<Rightarrow> if rc = 0 then Inr out else Inl CalledProcessError
      | Undecodable rc \<Rightarrow> Inl UnicodeDecodeError
      | NotFound \<Rightarrow> Inl FileNotFoundError)"

definition run_checked :: "proc_result \<Rightarrow> exn + unit" where
  \<comment> \<open>\<open>subprocess.run(..., check=True)\<close> with no captured output: nothing is decoded,
      only the return code counts.\<close>
  "run_checked r =
     (case r of
        Exited rc out \<Rightarrow> if rc = 0 then Inr () else Inl CalledProcessError
      | Undecodable rc \<Rightarrow> if rc = 0 then Inr () else Inl CalledProcessError
      | NotFound \<Rightarrow> Inl FileNotFoundError)"

section \<open>The fallback generator\<close>

definition generate_fallback_message :: "change list \<Rightarrow> exn + string" where
  "generate_fallback_message changes =
     (if length changes = 1 then
        (case getitem changes 0 of
           Inl e \<Rightarrow> Inl e
         | Inr c \<Rightarrow> Inr (''Update '' @ fst c))
      else Inr (''Update '' @ str_nat (length changes) @ '' files''))"

section \<open>The prompt builder\<close>

definition prompt_header :: string where
  "prompt_header =
     ''You are a helpful assistant that generates descriptive git commit messages. \<newline>'' @
     ''        Analyze the following changes and generate a clear, informative commit message that describes what was changed and why.\<newline>'' @
     ''        Focus on the functional changes and their impact. Use the active voice and present tense.\<newline>'' @
     ''\<newline>'' @
     ''        Just answer directly with the commit text.\<newline>'' @
     ''        \<newline>'' @
     ''        The commit message should follow this format:\<newline>'' @
     ''        - First line: Short summary (50-72 characters)\<newline>'' @
     ''        - Second line: Blank\<newline>'' @
     ''        - Following lines: Detailed explanation if needed\<newline>'' @
     ''        \<newline>'' @
     ''        Here are the changes:\<newline>\<newline>''"

definition prompt_closing :: string where
  "prompt_closing =
     ''\<newline>Based on these changes, generate a commit message that explains what was changed and why.''"

fun prompt_loop :: "string \<Rightarrow> change list \<Rightarrow> string" where
  \<comment> \<open>The \<open>for\<close> loop of \<open>prepare_claude_prompt\<close>: three \<open>+=\<close> per change.\<close>
  "prompt_loop prompt [] = prompt"
| "prompt_loop prompt ((file_path, diff, content) # rest) =
     (let prompt1 = prompt @ (''File: '' @ file_path @ ''\<newline>'');
          prompt2 = prompt1 @ (''Diff:\<newline>'' @ diff @ ''\<newline>'');
          prompt3 = prompt2 @ (''Current file content:\<newline>'' @ content @ ''\<newline>\<newline>'')
      in prompt_loop prompt3 rest)"

definition prepare_claude_prompt :: "change list \<Rightarrow> string" where
  "prepare_claude_prompt changes = prompt_loop prompt_header changes @ prompt_closing"

section \<open>The change collector\<close>

definition name_only_argv :: "string list" where
  "name_only_argv = [''git'', ''diff'', ''--cached'', ''--name-only'']"

definition diff_argv :: "string \<Rightarrow> string list" where
  "diff_argv file_path = [''git'', ''diff'', ''--cached'', file_path]"

definition staged_files :: "string \<Rightarrow> string list" where
  \<comment> \<open>The output split at newlines, then \<open>[f for f in staged_files if f]\<close>.\<close>
  "staged_files out = filter (\<lambda>f. f \<noteq> []) (split_nl out)"

fun collect_changes ::
  "world \<Rightarrow> string list \<Rightarrow> change list \<Rightarrow> event list \<Rightarrow> change list outcome \<times> event list" where
  \<comment> \<open>The \<open>for file_path in staged_files\<close> loop; \<open>changes\<close> is the list built so far.\<close>
  "collect_changes w [] changes tr = (Return changes, tr)"
| "collect_changes w (file_path # rest) changes tr =
     (let tr1 = tr @ [Subprocess (diff_argv file_path)] in
      case checked (subprocess w (diff_argv file_path)) of
        Inl e \<Rightarrow> (Raise e, tr1)
      | Inr diff \<Rightarrow>
          (let tr2 = tr1 @ [OpenRead file_path];
               file_content = (case read_file w file_path of Inl _ \<Rightarrow> [] | Inr s \<Rightarrow> s)
           in collect_changes w rest (changes @ [(file_path, diff, file_content)]) tr2))"

definition get_staged_changes ::
  "world \<Rightarrow> event list \<Rightarrow> change list outcome \<times> event list" where
  "get_staged_changes w tr =
     (let tr1 = tr @ [Subprocess name_only_argv];
          body = (case checked (subprocess w name_only_argv) of
                    Inl e \<Rightarrow> (Raise e, tr1)
                  | Inr out \<Rightarrow> collect_changes w (staged_files out) [] tr1)
      in case fst body of
           Raise e \<Rightarrow>
             if e = CalledProcessError
             then (SysExit 1,
                   snd body @ [Print ''Error: Not a git repository or git is not installed''])
             else body
         | _ \<Rightarrow> body)"

section \<open>The message generator\<close>

definition get_commit_message_from_claude ::
  "world \<Rightarrow> change list \<Rightarrow> event list \<Rightarrow> commit_value outcome \<times> event list" where
  "get_commit_message_from_claude w changes tr =
     (let prompt = prepare_claude_prompt changes;
          tr1 = tr @ [ApiRequest prompt]
      in case messages_create w prompt of
           Inr content \<Rightarrow> (Return (Content content), tr1)
         | Inl err \<Rightarrow>
             (let tr2 = tr1 @ [Print (''Error calling Claude API: '' @ err)] in
              case generate_fallback_message changes of
                Inl e \<Rightarrow> (Raise e, tr2)
              | Inr s \<Rightarrow> (Return (Str s), tr2)))"

section \<open>Confirmation and commit\<close>

definition first_text :: "commit_value \<Rightarrow> exn + string" where
  \<comment> \<open>The expression \<open>commit_message[0].text\<close>: a character of a \<open>str\<close> has no
      attribute \<open>text\<close>.\<close>
  "first_text v =
     (case v of
        Content blocks \<Rightarrow>
          (case getitem blocks 0 of
             Inl e \<Rightarrow> Inl e
           | Inr b \<Rightarrow> (case b of TextBlock t \<Rightarrow> Inr t | OtherBlock \<Rightarrow> Inl AttributeError))
      | Str s \<Rightarrow>
          (case getitem s 0 of
             Inl e \<Rightarrow> Inl e
           | Inr _ \<Rightarrow> Inl AttributeError))"

definition commit_argv :: "string \<Rightarrow> string list" where
  "commit_argv message = [''git'', ''commit'', ''-m'', message]"

definition commit_edit_argv :: "string list" where
  "commit_edit_argv = [''git'', ''commit'', ''-e'']"

definition editmsg_path :: string where
  "editmsg_path = ''.git/COMMIT_EDITMSG''"

definition create_commit :: "world \<Rightarrow> string \<Rightarrow> event list \<Rightarrow> unit outcome \<times> event list" where
  "create_commit w message tr =
     (let tr1 = tr @ [Subprocess (commit_argv message)] in
      case run_checked (subprocess w (commit_argv message)) of
        Inr _ \<Rightarrow>
          (Return (),
           tr1 @ [Print (''Successfully created commit with message:\<newline>'' @ message)])
      | Inl e \<Rightarrow>
          if e = CalledProcessError
          then (SysExit 1, tr1 @ [Print ''Error: Failed to create commit''])
          else (Raise e, tr1))"

definition triple_quote :: string where
  "triple_quote = replicate 3 (CHR 0x22)"

definition edit_commit :: "world \<Rightarrow> commit_value \<Rightarrow> event list \<Rightarrow> unit outcome \<times> event list" where
  \<comment> \<open>The \<open>elif\<close> branch of \<open>run\<close>: \<open>f.write\<close> takes a \<open>str\<close> only.\<close>
  "edit_commit w commit_message tr =
     (let tr1 = tr @ [OpenWrite editmsg_path] in
      case open_write w editmsg_path of
        Some e \<Rightarrow> (Raise e, tr1)
      | None \<Rightarrow>
          (case commit_message of
             Content _ \<Rightarrow> (Raise TypeError, tr1)
           | Str s \<Rightarrow>
               (let tr2 = tr1 @ [FileWrite editmsg_path s, Subprocess commit_edit_argv] in
                case run_checked (subprocess w commit_edit_argv) of
                  Inl e \<Rightarrow> (Raise e, tr2)
                | Inr _ \<Rightarrow> (Return (), tr2))))"

definition confirm :: "world \<Rightarrow> commit_value \<Rightarrow> event list \<Rightarrow> unit outcome \<times> event list" where
  \<comment> \<open>From the \<open>input\<close> call of \<open>run\<close> to its end.\<close>
  "confirm w commit_message tr =
     (let tr1 = tr @ [Input ''\<newline>Do you want to create this commit? (y/n/e[edit]): ''] in
      case stdin_line w of
        None \<Rightarrow> (Raise EOFError, tr1)
      | Some confirmation \<Rightarrow>
          if lower confirmation = ''y'' then
            (case first_text commit_message of
               Inl e \<Rightarrow> (Raise e, tr1)
             | Inr message \<Rightarrow> create_commit w message tr1)
          else if lower confirmation = ''e'' then edit_commit w commit_message tr1
          else (Return (), tr1 @ [Print ''Commit cancelled'']))"

definition run :: "world \<Rightarrow> event list \<Rightarrow> unit outcome \<times> event list" where
  "run w tr =
     (if (case getenv w ''ANTHROPIC_API_KEY'' of None \<Rightarrow> True | Some k \<Rightarrow> k = []) then
        (SysExit 1, tr @ [Print ''Error: ANTHROPIC_API_KEY environment variable not set''])
      else
        (case get_staged_changes w tr of
           (SysExit n, tr1) \<Rightarrow> (SysExit n, tr1)
         | (Raise e, tr1) \<Rightarrow> (Raise e, tr1)
         | (Return changes, tr1) \<Rightarrow>
             if changes = [] then (SysExit 0, tr1 @ [Print ''No changes staged for commit''])
             else
               (case get_commit_message_from_claude w changes tr1 of
                  (SysExit n, tr2) \<Rightarrow> (SysExit n, tr2)
                | (Raise e, tr2) \<Rightarrow> (Raise e, tr2)
                | (Return commit_message, tr2) \<Rightarrow>
                    (let tr3 = tr2 @ [Print ''\<newline>Suggested commit message:''] in
                     case first_text commit_message of
                       Inl e \<Rightarrow> (Raise e, tr3)
                     | Inr shown \<Rightarrow>
                         confirm w commit_message
                           (tr3 @ [Print (triple_quote @ ''\<newline>'' @ shown @ ''\<newline>''
                                          @ triple_quote)])))))"

definition main :: "world \<Rightarrow> unit outcome \<times> event list" where
  \<comment> \<open>\<open>helper = GitCommitHelper(); helper.run()\<close>\<close>
  "main w =
     (case anthropic_ctor w (getenv w ''ANTHROPIC_API_KEY'') of
        Some e \<Rightarrow> (Raise e, [])
      | None \<Rightarrow> run w [])"

definition exit_code :: "'a outcome \<Rightarrow> int" where
  \<comment> \<open>The interpreter's exit code: 1 when it ends on an uncaught exception.\<close>
  "exit_code r = (case r of Return _ \<Rightarrow> 0 | SysExit n \<Rightarrow> n | Raise _ \<Rightarrow> 1)"

definition traceback_shown :: "'a outcome \<Rightarrow> bool" where
  \<comment> \<open>The interpreter prints a stack trace exactly when an exception is uncaught.\<close>
  "traceback_shown r = (case r of Raise _ \<Rightarrow> True | _ \<Rightarrow> False)"

section \<open>An example environment\<close>

text \<open>
  A repository with one staged file \<open>foo.txt\<close>, a key in the environment, a service
  that answers with one text block, and a user who types \<open>y\<close>. The concrete runs
  below vary one field of it at a time.
\<close>

definition example_world :: world where
  "example_world =
     \<lparr> getenv = (\<lambda>name. if name = ''ANTHROPIC_API_KEY'' then Some ''sk-test'' else None),
       anthropic_ctor = (\<lambda>_. None),
       subprocess = (\<lambda>argv.
         if argv = name_only_argv then Exited 0 ''foo.txt\<newline>''
         else if argv = diff_argv ''foo.txt'' then Exited 0 ''+hello\<newline>''
         else Exited 0 []),
       read_file = (\<lambda>path. if path = ''foo.txt'' then Inr ''hello\<newline>'' else Inl FileNotFoundError),
       messages_create = (\<lambda>_. Inr [TextBlock ''Add greeting'']),
       open_write = (\<lambda>_. None),
       stdin_line = Some ''y'' \<rparr>"




lemmas argv_defs = name_only_argv_def diff_argv_def commit_argv_def commit_edit_argv_def

section \<open>Decimal rendering\<close>

lemma of_char_digit: "d < 10 \<Longrightarrow> of_char (digit_char d) = (48 + d :: nat)"
proof -
  assume "d < 10"
  then have "d \<in> {0, 1, 2, 3, 4, 5, 6, 7, 8, 9}" by auto
  then show ?thesis by (auto simp: digit_char_def)
qed

lemma digits_value_snoc: "digits_value (s @ [c]) = 10 * digits_value s + (of_char c - 48)"
  by (simp add: digits_value_def)

text \<open>\<open>str_nat\<close> writes the decimal numeral of its argument: reading it back gives the number.\<close>

lemma str_nat_roundtrip: "digits_value (str_nat n) = n"
proof (induction n rule: str_nat.induct)
  case (1 n)
  show ?case
  proof (cases "n < 10")
    case True
    then show ?thesis by (simp add: str_nat.simps [of n] digits_value_def of_char_digit)
  next
    case False
    with 1 have "digits_value (str_nat (n div 10)) = n div 10" by simp
    with False show ?thesis
      by (simp add: str_nat.simps [of n] digits_value_snoc of_char_digit)
  qed
qed

section \<open>The fallback generator: properties\<close>

text \<open>
  Claim C2. For a list of exactly one change with path \<open>p\<close> the fallback generator
  returns \<open>"Update "\<close> followed by \<open>p\<close>; for a list of any other length \<open>N\<close> it returns
  \<open>"Update N files"\<close>, \<open>N\<close> in decimal. It never raises (the result is always
  \<open>Inr\<close>), and it is a function of the list alone: it takes no \<open>world\<close> and
  produces no event, so it has no network access.
\<close>

theorem generate_fallback_message_spec:
  "(length changes = 1 \<longrightarrow>
      generate_fallback_message changes = Inr (''Update '' @ fst (hd changes))) \<and>
   (length changes \<noteq> 1 \<longrightarrow>
      generate_fallback_message changes =
        Inr (''Update '' @ str_nat (length changes) @ '' files''))"
  by (cases changes) (simp_all add: generate_fallback_message_def getitem_def)

theorem generate_fallback_message_spec_witness:
  "generate_fallback_message [(''foo.txt'', ''+x'', ''x'')] = Inr ''Update foo.txt'' \<and>
   generate_fallback_message [(''a'', [], []), (''b'', [], []), (''c'', [], [])] =
     Inr ''Update 3 files''"
  using generate_fallback_message_spec [of "[(''foo.txt'', ''+x'', ''x'')]"]
    generate_fallback_message_spec [of "[(''a'', [], []), (''b'', [], []), (''c'', [], [])]"]
  by (simp add: str_nat.simps digit_char_def)

text \<open>
  Claim C10. On the empty list the fallback generator returns \<open>"Update 0 files"\<close>, and on
  every list, the empty one included, it returns a string and does not raise.
\<close>

theorem generate_fallback_message_total:
  "generate_fallback_message [] = Inr ''Update 0 files'' \<and>
   (\<forall>changes. \<exists>s. generate_fallback_message changes = Inr s)"
  by (simp add: generate_fallback_message_def getitem_def str_nat.simps digit_char_def)

section \<open>The prompt builder: properties\<close>

lemma prompt_loop_append:
  "prompt_loop prompt changes =
     prompt @ concat (map (\<lambda>(file_path, diff, content).
       ''File: '' @ file_path @ ''\<newline>'' @ ''Diff:\<newline>'' @ diff @ ''\<newline>''
         @ ''Current file content:\<newline>'' @ content @ ''\<newline>\<newline>'') changes)"
proof (induction changes arbitrary: prompt)
  case Nil
  show ?case by simp
next
  case (Cons change rest)
  obtain file_path diff content where c: "change = (file_path, diff, content)"
    by (cases change) auto
  show ?case unfolding c by (simp add: Cons.IH Let_def)
qed

text \<open>
  Claim C3. The prompt is the fixed header, then one section per change in the order of
  the input list, then the fixed closing instruction. A section holds the change's path,
  its diff and its content once each, in this order, between fixed labels; nothing else
  is emitted, so the prompt is as long as the header, the closing instruction and one
  section (the three fields plus 38 characters of labels) per change. This holds for every
  list of changes, the non-empty ones in particular.
\<close>

theorem prepare_claude_prompt_layout:
  "prepare_claude_prompt changes =
     prompt_header
     @ concat (map (\<lambda>(file_path, diff, content).
         ''File: '' @ file_path @ ''\<newline>'' @ ''Diff:\<newline>'' @ diff @ ''\<newline>''
           @ ''Current file content:\<newline>'' @ content @ ''\<newline>\<newline>'') changes)
     @ prompt_closing \<and>
   length (prepare_claude_prompt changes) =
     length prompt_header + length prompt_closing
     + (\<Sum>(file_path, diff, content) \<leftarrow> changes.
          length file_path + length diff + length content + 38)"
proof -
  have len: "length (concat (map (\<lambda>(file_path, diff, content).
         ''File: '' @ file_path @ ''\<newline>'' @ ''Diff:\<newline>'' @ diff @ ''\<newline>''
           @ ''Current file content:\<newline>'' @ content @ ''\<newline>\<newline>'') cs))
     = (\<Sum>(file_path, diff, content) \<leftarrow> cs.
          length file_path + length diff + length content + 38)" for cs :: "change list"
    by (induction cs) (auto simp: case_prod_beta)
  show ?thesis
    unfolding prepare_claude_prompt_def prompt_loop_append
    using len [of changes] by simp
qed

section \<open>The change collector: properties\<close>

lemma collect_changes_ok:
  assumes "\<forall>p \<in> set paths. \<exists>d. checked (subprocess w (diff_argv p)) = Inr d"
  shows "collect_changes w paths changes tr =
     (Return (changes @ map (\<lambda>p. (p, projr (checked (subprocess w (diff_argv p))),
                                   case read_file w p of Inl _ \<Rightarrow> [] | Inr s \<Rightarrow> s)) paths),
      tr @ concat (map (\<lambda>p. [Subprocess (diff_argv p), OpenRead p]) paths))"
  using assms
proof (induction paths arbitrary: changes tr)
  case Nil
  show ?case by simp
next
  case (Cons p rest)
  from Cons.prems obtain d where d: "checked (subprocess w (diff_argv p)) = Inr d"
    by auto
  from Cons.prems have rest: "\<forall>q \<in> set rest. \<exists>d. checked (subprocess w (diff_argv q)) = Inr d"
    by simp
  show ?case
    by (simp add: d Cons.IH [OF rest] Let_def)
qed

lemma get_staged_changes_ok:
  assumes "checked (subprocess w name_only_argv) = Inr out"
    and "\<forall>p \<in> set (staged_files out). \<exists>d. checked (subprocess w (diff_argv p)) = Inr d"
  shows "get_staged_changes w tr =
     (Return (map (\<lambda>p. (p, projr (checked (subprocess w (diff_argv p))),
                        case read_file w p of Inl _ \<Rightarrow> [] | Inr s \<Rightarrow> s)) (staged_files out)),
      tr @ Subprocess name_only_argv
         # concat (map (\<lambda>p. [Subprocess (diff_argv p), OpenRead p]) (staged_files out)))"
  by (simp add: get_staged_changes_def assms(1) collect_changes_ok [OF assms(2)] Let_def)

lemma collect_changes_query_fails:
  assumes "p \<in> set paths" and "checked (subprocess w (diff_argv p)) = Inl e"
  shows "\<exists>e' tr'. collect_changes w paths changes tr = (Raise e', tr')"
  using assms(1)
proof (induction paths arbitrary: changes tr)
  case Nil
  then show ?case by simp
next
  case (Cons q rest)
  show ?case
  proof (cases "checked (subprocess w (diff_argv q))")
    case (Inl e')
    then show ?thesis by (simp add: Let_def)
  next
    case (Inr d)
    with assms(2) have "p \<noteq> q" by auto
    with Cons.prems have "p \<in> set rest" by simp
    from Cons.IH [OF this] show ?thesis by (simp add: Inr Let_def)
  qed
qed

lemma get_staged_changes_query_fails:
  assumes "checked (subprocess w name_only_argv) = Inr out"
    and "p \<in> set (staged_files out)" and "checked (subprocess w (diff_argv p)) = Inl e"
  shows "get_staged_changes w tr \<noteq> (Return changes, tr')"
proof -
  from collect_changes_query_fails [OF assms(2,3)] obtain e' tr1 where
    c: "collect_changes w (staged_files out) [] (tr @ [Subprocess name_only_argv]) = (Raise e', tr1)"
    by blast
  show ?thesis
    by (simp add: get_staged_changes_def assms(1) c Let_def)
qed




section \<open>Start-up and the empty index\<close>

text \<open>
  Claim C4. When \<open>ANTHROPIC_API_KEY\<close> is not in the environment, the program ends with a
  non-zero exit code and has spawned no subprocess at all, whether the client's constructor
  raises on the missing key or \<open>run\<close> reaches its own check.
\<close>

theorem main_without_api_key:
  assumes "getenv w ''ANTHROPIC_API_KEY'' = None"
  shows "exit_code (fst (main w)) \<noteq> 0 \<and> (\<forall>argv. Subprocess argv \<notin> set (snd (main w)))"
  using assms by (simp add: main_def run_def exit_code_def split: option.split)

theorem main_without_api_key_witness:
  "getenv (example_world\<lparr>getenv := \<lambda>_. None\<rparr>) ''ANTHROPIC_API_KEY'' = None \<and>
   main (example_world\<lparr>getenv := \<lambda>_. None\<rparr>) =
     (SysExit 1, [Print ''Error: ANTHROPIC_API_KEY environment variable not set'']) \<and>
   exit_code (fst (main (example_world\<lparr>getenv := \<lambda>_. None\<rparr>))) \<noteq> 0 \<and>
   (\<forall>argv. Subprocess argv \<notin> set (snd (main (example_world\<lparr>getenv := \<lambda>_. None\<rparr>))))"
proof -
  have h: "getenv (example_world\<lparr>getenv := \<lambda>_. None\<rparr>) ''ANTHROPIC_API_KEY'' = None"
    by simp
  have m: "main (example_world\<lparr>getenv := \<lambda>_. None\<rparr>) =
     (SysExit 1, [Print ''Error: ANTHROPIC_API_KEY environment variable not set''])"
    by (simp add: main_def run_def example_world_def)
  show ?thesis using h m main_without_api_key [OF h] by simp
qed

text \<open>
  Claim C5. When the program has its key and its client, and the version-control tool
  answers the query for staged paths with no path at all, the program prints that nothing
  is staged and leaves through \<open>sys.exit(0)\<close>: the only subprocess spawned is that
  query, so no commit command runs, and no request goes to the generation service.
\<close>

theorem main_nothing_staged:
  assumes "getenv w ''ANTHROPIC_API_KEY'' = Some k" and "k \<noteq> []"
    and "anthropic_ctor w (Some k) = None"
    and "checked (subprocess w name_only_argv) = Inr out"
    and "staged_files out = []"
  shows "main w = (SysExit 0, [Subprocess name_only_argv, Print ''No changes staged for commit'']) \<and>
         exit_code (fst (main w)) = 0 \<and>
         (\<forall>prompt. ApiRequest prompt \<notin> set (snd (main w))) \<and>
         (\<forall>message. Subprocess (commit_argv message) \<notin> set (snd (main w))) \<and>
         Subprocess commit_edit_argv \<notin> set (snd (main w))"
proof -
  have g: "get_staged_changes w [] = (Return [], [Subprocess name_only_argv])"
    using get_staged_changes_ok [of w out "[]"] assms(4,5) by simp
  have m: "main w = (SysExit 0, [Subprocess name_only_argv, Print ''No changes staged for commit''])"
    by (simp add: main_def run_def assms(1,2,3) g)
  show ?thesis
    by (simp add: m exit_code_def argv_defs)
qed

theorem main_nothing_staged_witness:
  "main (example_world\<lparr>subprocess := \<lambda>_. Exited 0 []\<rparr>) =
     (SysExit 0, [Subprocess name_only_argv, Print ''No changes staged for commit'']) \<and>
   exit_code (fst (main (example_world\<lparr>subprocess := \<lambda>_. Exited 0 []\<rparr>))) = 0 \<and>
   (\<forall>prompt. ApiRequest prompt \<notin> set (snd (main (example_world\<lparr>subprocess := \<lambda>_. Exited 0 []\<rparr>)))) \<and>
   (\<forall>message. Subprocess (commit_argv message)
       \<notin> set (snd (main (example_world\<lparr>subprocess := \<lambda>_. Exited 0 []\<rparr>)))) \<and>
   Subprocess commit_edit_argv \<notin> set (snd (main (example_world\<lparr>subprocess := \<lambda>_. Exited 0 []\<rparr>)))"
proof -
  let ?w = "example_world\<lparr>subprocess := \<lambda>_. Exited 0 []\<rparr>"
  have k: "getenv ?w ''ANTHROPIC_API_KEY'' = Some ''sk-test''"
    by (simp add: example_world_def)
  have n: "''sk-test'' \<noteq> []" by simp
  have c: "anthropic_ctor ?w (Some ''sk-test'') = None"
    by (simp add: example_world_def)
  have out: "checked (subprocess ?w name_only_argv) = Inr []"
    by (simp add: checked_def)
  have files: "staged_files [] = []"
    by (simp add: staged_files_def)
  show ?thesis
    by (rule main_nothing_staged [OF k n c out files])
qed

section \<open>When the request to the service fails\<close>

lemma example_key: "getenv example_world ''ANTHROPIC_API_KEY'' = Some ''sk-test''"
  by (simp add: example_world_def)

lemma fallback_has_no_text:
  assumes "changes \<noteq> []"
  shows "\<exists>s. generate_fallback_message changes = Inr s \<and> first_text (Str s) = Inl AttributeError"
  using assms
  by (cases changes) (simp_all add: generate_fallback_message_def getitem_def first_text_def)

lemma run_failed_request:
  assumes "getenv w ''ANTHROPIC_API_KEY'' = Some k" and "k \<noteq> []"
    and "get_staged_changes w tr = (Return changes, tr1)" and "changes \<noteq> []"
    and "messages_create w (prepare_claude_prompt changes) = Inl err"
  shows "run w tr =
     (Raise AttributeError,
      tr1 @ [ApiRequest (prepare_claude_prompt changes),
             Print (''Error calling Claude API: '' @ err),
             Print ''\<newline>Suggested commit message:''])"
proof -
  from fallback_has_no_text [OF assms(4)] obtain s where
    s: "generate_fallback_message changes = Inr s" "first_text (Str s) = Inl AttributeError"
    by blast
  show ?thesis
    by (simp add: run_def assms get_commit_message_from_claude_def s Let_def)
qed

lemma example_staged:
  assumes "subprocess w = subprocess example_world" and "read_file w = read_file example_world"
  shows "get_staged_changes w [] =
     (Return [(''foo.txt'', ''+hello\<newline>'', ''hello\<newline>'')],
      [Subprocess name_only_argv, Subprocess (diff_argv ''foo.txt''), OpenRead ''foo.txt''])"
  by (simp add: get_staged_changes_def assms example_world_def checked_def argv_defs
        staged_files_def Let_def)

text \<open>
  On a failed request \<open>get_commit_message_from_claude\<close> itself returns the
  fallback generator's string, after printing the error.
\<close>

lemma failed_request_returns_fallback:
  assumes "messages_create w (prepare_claude_prompt changes) = Inl err"
    and "generate_fallback_message changes = Inr s"
  shows "get_commit_message_from_claude w changes tr =
     (Return (Str s),
      tr @ [ApiRequest (prepare_claude_prompt changes),
            Print (''Error calling Claude API: '' @ err)])"
  using assms by (simp add: get_commit_message_from_claude_def Let_def)

text \<open>
  Claim C1. The claim says that after a failed request the program displays the fallback
  message and passes it to the commit command. The run below has one staged file and a
  service that raises: the fallback generator gives \<open>"Update foo.txt"\<close> for these
  changes, but \<open>run\<close> then evaluates \<open>commit_message[0].text\<close> on that string,
  which raises AttributeError. The program ends there: the message is never printed, the
  user is never asked, and no commit command runs. By \<open>run_failed_request\<close> this
  happens for every non-empty list of changes.
\<close>

theorem failed_request_run:
  "generate_fallback_message [(''foo.txt'', ''+hello\<newline>'', ''hello\<newline>'')] = Inr ''Update foo.txt'' \<and>
   main (example_world\<lparr>messages_create := \<lambda>_. Inl ''Connection error.''\<rparr>) =
     (Raise AttributeError,
      [Subprocess name_only_argv, Subprocess (diff_argv ''foo.txt''), OpenRead ''foo.txt'',
       ApiRequest (prepare_claude_prompt [(''foo.txt'', ''+hello\<newline>'', ''hello\<newline>'')]),
       Print ''Error calling Claude API: Connection error.'',
       Print ''\<newline>Suggested commit message:''])"
proof -
  let ?w = "example_world\<lparr>messages_create := \<lambda>_. Inl ''Connection error.''\<rparr>"
  have g: "get_staged_changes ?w [] =
     (Return [(''foo.txt'', ''+hello\<newline>'', ''hello\<newline>'')],
      [Subprocess name_only_argv, Subprocess (diff_argv ''foo.txt''), OpenRead ''foo.txt''])"
    by (rule example_staged) simp_all
  have k: "getenv ?w ''ANTHROPIC_API_KEY'' = Some ''sk-test''"
    by (simp add: example_world_def)
  have r: "run ?w [] = (Raise AttributeError,
      [Subprocess name_only_argv, Subprocess (diff_argv ''foo.txt''), OpenRead ''foo.txt'']
      @ [ApiRequest (prepare_claude_prompt [(''foo.txt'', ''+hello\<newline>'', ''hello\<newline>'')]),
       Print (''Error calling Claude API: '' @ ''Connection error.''),
       Print ''\<newline>Suggested commit message:''])"
    by (rule run_failed_request [OF k _ g]) simp_all
  have m: "main ?w = run ?w []"
    by (simp add: main_def example_world_def)
  have f: "generate_fallback_message [(''foo.txt'', ''+hello\<newline>'', ''hello\<newline>'')] = Inr ''Update foo.txt''"
    by (simp add: generate_fallback_message_def getitem_def)
  show ?thesis
    unfolding m using r f by simp
qed

section \<open>Accept\<close>

lemma lower_accept: "lower ''y'' = ''y''" "lower ''Y'' = ''y''"
  by (simp_all add: lower_def lower_char_def)

lemma lower_edit: "lower ''e'' = ''e''" "lower ''E'' = ''e''"
  by (simp_all add: lower_def lower_char_def)

lemma confirm_accept:
  assumes "stdin_line w = Some confirmation" and "confirmation = ''y'' \<or> confirmation = ''Y''"
    and "first_text commit_message = Inr message"
  shows "\<exists>rest. snd (confirm w commit_message tr) =
           tr @ [Input ''\<newline>Do you want to create this commit? (y/n/e[edit]): '',
                 Subprocess (commit_argv message)] @ rest \<and>
         (\<forall>argv. Subprocess argv \<notin> set rest)"
  using assms
  by (auto simp: confirm_def create_commit_def lower_accept Let_def split: sum.split)

text \<open>
  The run of the example environment as it is: the request succeeds, the user types
  \<open>y\<close>, and the commit command is spawned once with the first block's text.
\<close>

lemma example_run_accept:
  "main example_world =
     (Return (),
      [Subprocess name_only_argv, Subprocess (diff_argv ''foo.txt''), OpenRead ''foo.txt'',
       ApiRequest (prepare_claude_prompt [(''foo.txt'', ''+hello\<newline>'', ''hello\<newline>'')]),
       Print ''\<newline>Suggested commit message:'',
       Print (triple_quote @ ''\<newline>Add greeting\<newline>'' @ triple_quote),
       Input ''\<newline>Do you want to create this commit? (y/n/e[edit]): '',
       Subprocess (commit_argv ''Add greeting''),
       Print ''Successfully created commit with message:\<newline>Add greeting''])"
proof -
  have g: "get_staged_changes example_world [] =
     (Return [(''foo.txt'', ''+hello\<newline>'', ''hello\<newline>'')],
      [Subprocess name_only_argv, Subprocess (diff_argv ''foo.txt''), OpenRead ''foo.txt''])"
    by (rule example_staged) simp_all
  have c: "get_commit_message_from_claude example_world
             [(''foo.txt'', ''+hello\<newline>'', ''hello\<newline>'')] tr =
     (Return (Content [TextBlock ''Add greeting'']),
      tr @ [ApiRequest (prepare_claude_prompt [(''foo.txt'', ''+hello\<newline>'', ''hello\<newline>'')])])" for tr
    by (simp add: get_commit_message_from_claude_def example_world_def Let_def)
  have t: "first_text (Content [TextBlock ''Add greeting'']) = Inr ''Add greeting''"
    by (simp add: first_text_def getitem_def)
  have i: "stdin_line example_world = Some ''y''"
    by (simp add: example_world_def)
  have p: "run_checked (subprocess example_world (commit_argv ''Add greeting'')) = Inr ()"
    by (simp add: example_world_def run_checked_def argv_defs)
  have a: "confirm example_world (Content [TextBlock ''Add greeting'']) tr =
     (Return (),
      tr @ [Input ''\<newline>Do you want to create this commit? (y/n/e[edit]): '',
            Subprocess (commit_argv ''Add greeting''),
            Print ''Successfully created commit with message:\<newline>Add greeting''])" for tr
    by (simp add: confirm_def create_commit_def t i p lower_accept Let_def)
  have m: "main example_world = run example_world []"
    by (simp add: main_def example_world_def)
  show ?thesis
    unfolding m by (simp add: run_def example_key g c t a Let_def)
qed

text \<open>
  Claim C6. After a successful request, typing \<open>y\<close> or \<open>Y\<close> spawns the
  commit command once, with the first block's text as its message
  (\<open>confirm_accept\<close>). After a failed request the claim expects the same with the
  fallback's message; the run below, with a failing service and a user who would type
  \<open>Y\<close>, ends on AttributeError before the prompt is shown, and its trace holds no
  commit command.
\<close>

theorem accept_after_failed_request:
  "stdin_line (example_world\<lparr>messages_create := \<lambda>_. Inl ''overloaded'', stdin_line := Some ''Y''\<rparr>) = Some ''Y'' \<and>
   fst (main (example_world\<lparr>messages_create := \<lambda>_. Inl ''overloaded'', stdin_line := Some ''Y''\<rparr>)) =
     Raise AttributeError \<and>
   (\<forall>message. Subprocess (commit_argv message) \<notin>
      set (snd (main (example_world\<lparr>messages_create := \<lambda>_. Inl ''overloaded'', stdin_line := Some ''Y''\<rparr>))))"
proof -
  let ?w = "example_world\<lparr>messages_create := \<lambda>_. Inl ''overloaded'', stdin_line := Some ''Y''\<rparr>"
  have g: "get_staged_changes ?w [] =
     (Return [(''foo.txt'', ''+hello\<newline>'', ''hello\<newline>'')],
      [Subprocess name_only_argv, Subprocess (diff_argv ''foo.txt''), OpenRead ''foo.txt''])"
    by (rule example_staged) simp_all
  have k: "getenv ?w ''ANTHROPIC_API_KEY'' = Some ''sk-test''"
    by (simp add: example_world_def)
  have r: "run ?w [] = (Raise AttributeError,
      [Subprocess name_only_argv, Subprocess (diff_argv ''foo.txt''), OpenRead ''foo.txt'']
      @ [ApiRequest (prepare_claude_prompt [(''foo.txt'', ''+hello\<newline>'', ''hello\<newline>'')]),
       Print (''Error calling Claude API: '' @ ''overloaded''),
       Print ''\<newline>Suggested commit message:''])"
    by (rule run_failed_request [OF k _ g]) simp_all
  have m: "main ?w = run ?w []"
    by (simp add: main_def example_world_def)
  show ?thesis
    unfolding m r by (simp add: argv_defs)
qed

section \<open>Edit\<close>

lemma edit_commit_never_returns:
  assumes "first_text commit_message = Inr shown"
  shows "\<exists>e. edit_commit w commit_message tr = (Raise e, tr @ [OpenWrite editmsg_path])"
  using assms
  by (cases commit_message)
     (auto simp: edit_commit_def first_text_def getitem_def Let_def split: option.split if_splits)

text \<open>
  Claim C9. The claim says that typing \<open>e\<close> writes the message to the scratch file
  and then runs the commit command in edit mode. In the run below the request succeeded and
  the user typed \<open>e\<close>: the scratch file is opened for writing, \<open>f.write\<close> is
  given the list of blocks instead of a string and raises TypeError, nothing is written and
  \<open>git commit -e\<close> is never spawned. By \<open>edit_commit_never_returns\<close> no message
  that \<open>run\<close> was able to display gets through this branch.
\<close>

theorem edit_run:
  "main (example_world\<lparr>stdin_line := Some ''e''\<rparr>) =
     (Raise TypeError,
      [Subprocess name_only_argv, Subprocess (diff_argv ''foo.txt''), OpenRead ''foo.txt'',
       ApiRequest (prepare_claude_prompt [(''foo.txt'', ''+hello\<newline>'', ''hello\<newline>'')]),
       Print ''\<newline>Suggested commit message:'',
       Print (triple_quote @ ''\<newline>Add greeting\<newline>'' @ triple_quote),
       Input ''\<newline>Do you want to create this commit? (y/n/e[edit]): '',
       OpenWrite editmsg_path])"
proof -
  let ?w = "example_world\<lparr>stdin_line := Some ''e''\<rparr>"
  have g: "get_staged_changes ?w [] =
     (Return [(''foo.txt'', ''+hello\<newline>'', ''hello\<newline>'')],
      [Subprocess name_only_argv, Subprocess (diff_argv ''foo.txt''), OpenRead ''foo.txt''])"
    by (rule example_staged) simp_all
  have c: "get_commit_message_from_claude ?w [(''foo.txt'', ''+hello\<newline>'', ''hello\<newline>'')] tr =
     (Return (Content [TextBlock ''Add greeting'']),
      tr @ [ApiRequest (prepare_claude_prompt [(''foo.txt'', ''+hello\<newline>'', ''hello\<newline>'')])])" for tr
    by (simp add: get_commit_message_from_claude_def example_world_def Let_def)
  have t: "first_text (Content [TextBlock ''Add greeting'']) = Inr ''Add greeting''"
    by (simp add: first_text_def getitem_def)
  have e: "confirm ?w (Content [TextBlock ''Add greeting'']) tr =
     (Raise TypeError, tr @ [Input ''\<newline>Do you want to create this commit? (y/n/e[edit]): '',
                            OpenWrite editmsg_path])" for tr
    by (simp add: confirm_def edit_commit_def lower_def lower_char_def example_world_def Let_def)
  have k: "getenv ?w ''ANTHROPIC_API_KEY'' = Some ''sk-test''"
    by (simp add: example_world_def)
  have m: "main ?w = run ?w []"
    by (simp add: main_def example_world_def)
  show ?thesis
    unfolding m by (simp add: run_def example_key g c t e Let_def)
qed

section \<open>A failing query for staged changes\<close>

lemma get_staged_changes_not_a_repository:
  assumes "subprocess w name_only_argv = Exited rc out" and "rc \<noteq> 0"
  shows "get_staged_changes w tr =
     (SysExit 1, tr @ [Subprocess name_only_argv,
                      Print ''Error: Not a git repository or git is not installed''])"
  using assms by (simp add: get_staged_changes_def checked_def Let_def)

text \<open>
  Claim C8. When the query exits with a non-zero code (outside a repository, for
  example) the program prints its message and exits with code 1
  (\<open>get_staged_changes_not_a_repository\<close>). When the version-control executable is
  missing, \<open>subprocess.check_output\<close> raises FileNotFoundError, which the handler for
  CalledProcessError does not catch: the run below prints no message of its own and ends
  on the uncaught exception, with the interpreter's stack trace.
\<close>

theorem git_missing_run:
  "main (example_world\<lparr>subprocess := \<lambda>_. NotFound\<rparr>) =
     (Raise FileNotFoundError, [Subprocess name_only_argv]) \<and>
   traceback_shown (fst (main (example_world\<lparr>subprocess := \<lambda>_. NotFound\<rparr>))) \<and>
   (\<forall>s. Print s \<notin> set (snd (main (example_world\<lparr>subprocess := \<lambda>_. NotFound\<rparr>))))"
proof -
  let ?w = "example_world\<lparr>subprocess := \<lambda>_. NotFound\<rparr>"
  have g: "get_staged_changes ?w [] = (Raise FileNotFoundError, [Subprocess name_only_argv])"
    by (simp add: get_staged_changes_def checked_def Let_def)
  have k: "getenv ?w ''ANTHROPIC_API_KEY'' = Some ''sk-test''"
    by (simp add: example_world_def)
  have s: "main ?w = run ?w []"
    by (simp add: main_def example_world_def)
  have m: "main ?w = (Raise FileNotFoundError, [Subprocess name_only_argv])"
    unfolding s by (simp add: run_def example_key g)
  show ?thesis
    by (simp add: m traceback_shown_def)
qed

end
